theory Spec2Isabelle
  imports Main "HOL-Library.Word"
begin

unbundle bit_operations_syntax

section \<open>Common types\<close>

type_synonym int32 = "32 word"
type_synonym int64 = "64 word"

text \<open>A failed \<^verbatim>\<open>CHECK\<close>, \<^verbatim>\<open>LOG_CHECK\<close> or \<^verbatim>\<open>UNREACHABLE\<close> aborts the process: the
  operation has no result and no later state.\<close>

datatype fatal = CheckFailed

text \<open>\<^verbatim>\<open>Status::Error(code, message)\<close>, the value a promise is rejected with.\<close>

datatype Status = Error int string

fun error_code :: "Status \<Rightarrow> int" where
  "error_code (Error c m) = c"

fun error_message :: "Status \<Rightarrow> string" where
  "error_message (Error c m) = m"

text \<open>A line written by \<^verbatim>\<open>LOG(ERROR) << text << amount\<close>.\<close>

datatype log_line = LOG_ERROR string int64

section \<open>Payments.cpp: translation of wire objects\<close>

text \<open>\<^verbatim>\<open>telegram_api::labeledPrice\<close> (wire) and \<^verbatim>\<open>td_api::labeledPricePart\<close> (external).\<close>

record labeledPrice =
  label :: string
  amount :: int64

record labeledPricePart =
  part_label :: string
  part_amount :: int64

text \<open>\<^verbatim>\<open>convert_labeled_price\<close>, Payments.cpp lines 154-162. The range check
  \<^verbatim>\<open>check_currency_amount\<close> is declared in another file and is a parameter. A null
  pointer fails the \<^verbatim>\<open>CHECK\<close>. The sentinel is \<^verbatim>\<open>(amount < 0 ? -1 : 1) * (int64(1) << 40)\<close>.\<close>

definition convert_labeled_price ::
  "(int64 \<Rightarrow> bool) \<Rightarrow> labeledPrice option \<Rightarrow> fatal + (labeledPricePart \<times> log_line list)" where
  "convert_labeled_price check_currency_amount labeled_price =
     (case labeled_price of
        None \<Rightarrow> Inl CheckFailed
      | Some lp \<Rightarrow>
          if \<not> check_currency_amount (amount lp) then
            Inr (\<lparr>part_label = label lp,
                  part_amount = (if amount lp <s 0 then - 1 else 1) * push_bit 40 1\<rparr>,
                 [LOG_ERROR ''Receive invalid labeled price amount '' (amount lp)])
          else Inr (\<lparr>part_label = label lp, part_amount = amount lp\<rparr>, []))"

text \<open>\<^verbatim>\<open>td::transform\<close> over a vector, for a conversion that may abort and may log.\<close>

fun transform ::
  "('a \<Rightarrow> fatal + ('b \<times> log_line list)) \<Rightarrow> 'a list \<Rightarrow> fatal + ('b list \<times> log_line list)" where
  "transform f [] = Inr ([], [])"
| "transform f (x # xs) =
     (case f x of
        Inl e \<Rightarrow> Inl e
      | Inr (y, l) \<Rightarrow>
          (case transform f xs of
             Inl e \<Rightarrow> Inl e
           | Inr (ys, ls) \<Rightarrow> Inr (y # ys, l @ ls)))"

text \<open>\<^verbatim>\<open>td::remove_if(v, f)\<close> erases the elements satisfying \<^verbatim>\<open>f\<close> and keeps the others
  in order.\<close>

definition remove_if :: "('a \<Rightarrow> bool) \<Rightarrow> 'a list \<Rightarrow> 'a list" where
  "remove_if f v = filter (\<lambda>x. \<not> f x) v"

text \<open>\<^verbatim>\<open>telegram_api::invoice\<close>. The flag masks are generated constants declared in
  another file; they are a parameter.\<close>

record invoice =
  flags :: int32
  currency :: string
  prices :: "labeledPrice option list"
  max_tip_amount :: int64
  suggested_tip_amounts :: "int64 list"
  recurring_terms_url :: string

record invoice_masks =
  TEST_MASK :: int32
  NAME_REQUESTED_MASK :: int32
  PHONE_REQUESTED_MASK :: int32
  EMAIL_REQUESTED_MASK :: int32
  SHIPPING_ADDRESS_REQUESTED_MASK :: int32
  PHONE_TO_PROVIDER_MASK :: int32
  EMAIL_TO_PROVIDER_MASK :: int32
  FLEXIBLE_MASK :: int32

text \<open>\<^verbatim>\<open>td_api::invoice\<close>, fields in the order of the constructor call.\<close>

record td_api_invoice =
  inv_currency :: string
  inv_price_parts :: "labeledPricePart list"
  inv_max_tip_amount :: int64
  inv_suggested_tip_amounts :: "int64 list"
  inv_recurring_terms_url :: string
  inv_is_test :: bool
  inv_need_name :: bool
  inv_need_phone_number :: bool
  inv_need_email_address :: bool
  inv_need_shipping_address :: bool
  inv_send_phone_number_to_provider :: bool
  inv_send_email_address_to_provider :: bool
  inv_is_flexible :: bool

text \<open>The predicate handed to \<^verbatim>\<open>td::remove_if\<close> in \<^verbatim>\<open>convert_invoice\<close>, which is also the
  test on the maximum tip amount.\<close>

definition invalid_tip :: "(int64 \<Rightarrow> bool) \<Rightarrow> int64 \<Rightarrow> bool" where
  "invalid_tip check_currency_amount a \<longleftrightarrow> a <s 0 \<or> \<not> check_currency_amount a"

text \<open>\<^verbatim>\<open>convert_invoice\<close>, Payments.cpp lines 164-201.\<close>

definition convert_invoice ::
  "(int64 \<Rightarrow> bool) \<Rightarrow> invoice_masks \<Rightarrow> invoice option \<Rightarrow> fatal + (td_api_invoice \<times> log_line list)" where
  "convert_invoice check_currency_amount M invoice_ptr =
     (case invoice_ptr of
        None \<Rightarrow> Inl CheckFailed
      | Some wire \<Rightarrow>
          (case transform (convert_labeled_price check_currency_amount) (prices wire) of
             Inl e \<Rightarrow> Inl e
           | Inr (labeled_prices, log1) \<Rightarrow>
               let is_test = (flags wire AND TEST_MASK M \<noteq> 0);
                   need_name = (flags wire AND NAME_REQUESTED_MASK M \<noteq> 0);
                   need_phone_number = (flags wire AND PHONE_REQUESTED_MASK M \<noteq> 0);
                   need_email_address = (flags wire AND EMAIL_REQUESTED_MASK M \<noteq> 0);
                   need_shipping_address = (flags wire AND SHIPPING_ADDRESS_REQUESTED_MASK M \<noteq> 0);
                   send_phone_number_to_provider = (flags wire AND PHONE_TO_PROVIDER_MASK M \<noteq> 0);
                   send_email_address_to_provider = (flags wire AND EMAIL_TO_PROVIDER_MASK M \<noteq> 0);
                   is_flexible = (flags wire AND FLEXIBLE_MASK M \<noteq> 0);
                   need_phone_number = (if send_phone_number_to_provider then True else need_phone_number);
                   need_email_address = (if send_email_address_to_provider then True else need_email_address);
                   need_shipping_address = (if is_flexible then True else need_shipping_address);
                   bad_max_tip = invalid_tip check_currency_amount (max_tip_amount wire);
                   log2 = (if bad_max_tip
                           then [LOG_ERROR ''Receive invalid maximum tip amount '' (max_tip_amount wire)]
                           else []);
                   max_tip = (if bad_max_tip then 0 else max_tip_amount wire);
                   tips = remove_if (invalid_tip check_currency_amount) (suggested_tip_amounts wire);
                   tips = (if length tips > 4 then take 4 tips else tips)
               in Inr (\<lparr>inv_currency = currency wire,
                        inv_price_parts = labeled_prices,
                        inv_max_tip_amount = max_tip,
                        inv_suggested_tip_amounts = tips,
                        inv_recurring_terms_url = recurring_terms_url wire,
                        inv_is_test = is_test,
                        inv_need_name = need_name,
                        inv_need_phone_number = need_phone_number,
                        inv_need_email_address = need_email_address,
                        inv_need_shipping_address = need_shipping_address,
                        inv_send_phone_number_to_provider = send_phone_number_to_provider,
                        inv_send_email_address_to_provider = send_email_address_to_provider,
                        inv_is_flexible = is_flexible\<rparr>,
                       log1 @ log2)))"

section \<open>VideoNotesManager.cpp: data model\<close>

text \<open>Modelled from the spec: the opaque handle \<^verbatim>\<open>FileId\<close> with its validity predicate
  (FileId.h is not among the files covered). A default-constructed handle is 0 and is not valid.\<close>

type_synonym FileId = int

definition is_valid :: "FileId \<Rightarrow> bool" where
  "is_valid file_id \<longleftrightarrow> 0 < file_id"

text \<open>\<^verbatim>\<open>Dimensions\<close> and \<^verbatim>\<open>PhotoSize\<close> are declared in other files. The source reads
  \<^verbatim>\<open>width\<close>, \<^verbatim>\<open>height\<close>, \<^verbatim>\<open>thumbnail.file_id\<close> and \<^verbatim>\<open>thumbnail.dimensions\<close>; \<open>thumb_type\<close>
  and \<open>thumb_size\<close> stand for the remaining value fields of a thumbnail. \<^verbatim>\<open>PhotoSize()\<close> is
  the empty thumbnail.\<close>

record Dimensions =
  width :: nat
  height :: nat

record PhotoSize =
  thumb_type :: int
  thumb_dimensions :: Dimensions
  thumb_size :: int
  thumb_file_id :: FileId


text \<open>A promise is identified by a number; resolving it is an observable effect.\<close>

type_synonym Promise = nat

text \<open>Modelled from the spec: \<^verbatim>\<open>TranscriptionInfo\<close> (TranscriptionInfo.h/.cpp are not among
  the files covered) is the spec's TranscriptionState: correlation id, lifecycle phase
  (None, Requested, Partial, Final, Failed), latest text and the pending promises awaiting
  the next transition.\<close>

datatype phase = NotRequested | Requested | Partial | Final | Failed

record TranscriptionInfo =
  transcription_id :: int
  phase :: phase
  transcription_text :: string
  speech_recognition_queries :: "Promise list"

text \<open>Modelled from the spec: \<^verbatim>\<open>TranscriptionInfo::on_final_transcription\<close>, whose body is
  not among the files covered. On a push carrying pending=false the state becomes Final(text)
  and all pending waiters are handed back to be fulfilled.\<close>

definition on_final_transcription ::
  "TranscriptionInfo \<Rightarrow> string \<Rightarrow> int \<Rightarrow> TranscriptionInfo \<times> Promise list" where
  "on_final_transcription info new_text new_id =
     (info\<lparr>transcription_id := new_id, phase := Final, transcription_text := new_text,
           speech_recognition_queries := []\<rparr>,
      speech_recognition_queries info)"

text \<open>Modelled from the spec: \<^verbatim>\<open>TranscriptionInfo::on_failed_transcription\<close>, whose body is
  not among the files covered. On a transport or remote error the state becomes Failed and all
  pending waiters are handed back to be rejected with that error.\<close>

definition on_failed_transcription ::
  "TranscriptionInfo \<Rightarrow> Status \<Rightarrow> TranscriptionInfo \<times> Promise list" where
  "on_failed_transcription info err =
     (info\<lparr>phase := Failed, speech_recognition_queries := []\<rparr>,
      speech_recognition_queries info)"

text \<open>Modelled from the spec: \<^verbatim>\<open>TranscriptionInfo::on_partial_transcription\<close>, whose body is
  not among the files covered. On a push carrying pending=true the state becomes or stays
  Partial; the result tells whether the text differs from the previous partial text.\<close>

definition on_partial_transcription ::
  "TranscriptionInfo \<Rightarrow> string \<Rightarrow> int \<Rightarrow> TranscriptionInfo \<times> bool" where
  "on_partial_transcription info new_text new_id =
     (info\<lparr>transcription_id := new_id, phase := Partial, transcription_text := new_text\<rparr>,
      transcription_text info \<noteq> new_text)"

text \<open>The cached entity, \<^verbatim>\<open>VideoNotesManager::VideoNote\<close>, with the fields the source uses.\<close>

record VideoNote =
  file_id :: FileId
  duration :: int
  dimensions :: Dimensions
  waveform :: string
  minithumbnail :: string
  thumbnail :: PhotoSize
  transcription_info :: "TranscriptionInfo option"

text \<open>An owning message context. \<^verbatim>\<open>MessageId\<close> is declared in another file; the two
  classifications the source asks for are carried with the identifier.\<close>

datatype MessageId = MessageId (get_id: int) (is_scheduled: bool) (is_server: bool)

datatype FullMessageId = FullMessageId (get_dialog_id: int) (get_message_id: MessageId)

text \<open>\<^verbatim>\<open>telegram_api::updateTranscribedAudio\<close>, the fields the handler reads.\<close>

record updateTranscribedAudio =
  pending :: bool
  update_transcription_id :: int
  update_text :: string

text \<open>Calls that leave the manager, in the order they are made: to the file manager, to the
  messages manager, to the updates manager, and promise resolutions.\<close>

datatype effect =
    FileManager_dup_file_id FileId
  | FileManager_merge FileId FileId
  | on_update_message_content FullMessageId
  | on_external_update_message_content FullMessageId
  | subscribe_to_transcribed_audio_updates int FileId
  | Promise_set_value Promise
  | Promise_set_error Promise Status

text \<open>What the manager reads from its collaborators (\<^verbatim>\<open>td_\<close>, \<^verbatim>\<open>G()\<close>), all declared in
  other files: whether the client is a bot, the close flag, the handle returned by
  \<^verbatim>\<open>FileManager::dup_file_id\<close> (it may depend on the calls made so far), and the two static
  helpers \<^verbatim>\<open>TranscriptionInfo::copy_if_transcribed\<close> and \<^verbatim>\<open>TranscriptionInfo::update_from\<close>
  (new value of the old state, and the returned flag).\<close>

record Td =
  is_bot :: bool
  close_flag :: bool
  dup_file_id :: "effect list \<Rightarrow> FileId \<Rightarrow> FileId"
  copy_if_transcribed :: "TranscriptionInfo option \<Rightarrow> TranscriptionInfo option"
  update_from ::
    "TranscriptionInfo option \<Rightarrow> TranscriptionInfo option \<Rightarrow> TranscriptionInfo option \<times> bool"

text \<open>The manager: the entity cache \<^verbatim>\<open>video_notes_\<close>, the two directions of the
  back-reference registry, and the calls made so far. A \<^verbatim>\<open>FlatHashSet\<close> is kept as a list
  without repetition; its iteration order is the list order.\<close>

record VideoNotesManager =
  video_notes :: "FileId \<rightharpoonup> VideoNote"
  video_note_messages :: "FileId \<rightharpoonup> FullMessageId list"
  message_video_notes :: "FullMessageId \<rightharpoonup> FileId"
  effects :: "effect list"

section \<open>VideoNotesManager.cpp: operations\<close>

definition get_video_note :: "VideoNotesManager \<Rightarrow> FileId \<Rightarrow> VideoNote option" where
  "get_video_note s fid = video_notes s fid"

text \<open>\<^verbatim>\<open>on_video_note_transcription_updated\<close> and \<^verbatim>\<open>on_video_note_transcription_completed\<close>,
  lines 265-281: one call to the messages manager for each registered message.\<close>

definition on_video_note_transcription_updated :: "FileId \<Rightarrow> VideoNotesManager \<Rightarrow> VideoNotesManager" where
  "on_video_note_transcription_updated fid s =
     (case video_note_messages s fid of
        None \<Rightarrow> s
      | Some ms \<Rightarrow> s\<lparr>effects := effects s @ map on_external_update_message_content ms\<rparr>)"

definition on_video_note_transcription_completed :: "FileId \<Rightarrow> VideoNotesManager \<Rightarrow> VideoNotesManager" where
  "on_video_note_transcription_completed fid s =
     (case video_note_messages s fid of
        None \<Rightarrow> s
      | Some ms \<Rightarrow> s\<lparr>effects := effects s @ map on_update_message_content ms\<rparr>)"

text \<open>\<^verbatim>\<open>on_get_video_note\<close>, lines 63-96.\<close>

definition on_get_video_note ::
  "Td \<Rightarrow> VideoNote \<Rightarrow> bool \<Rightarrow> VideoNotesManager \<Rightarrow> fatal + (FileId \<times> VideoNotesManager)" where
  "on_get_video_note td new_video_note replace s =
     (let fid = file_id new_video_note in
      if \<not> is_valid fid then Inl CheckFailed
      else
        (case video_notes s fid of
           None \<Rightarrow> Inr (fid, s\<lparr>video_notes := (video_notes s)(fid \<mapsto> new_video_note)\<rparr>)
         | Some v \<Rightarrow>
             if replace then
               if file_id v \<noteq> file_id new_video_note then Inl CheckFailed
               else
                 let v = (if duration v \<noteq> duration new_video_note
                             \<or> dimensions v \<noteq> dimensions new_video_note
                             \<or> waveform v \<noteq> waveform new_video_note
                          then v\<lparr>duration := duration new_video_note,
                                 dimensions := dimensions new_video_note,
                                 waveform := waveform new_video_note\<rparr>
                          else v);
                     v = (if minithumbnail v \<noteq> minithumbnail new_video_note
                          then v\<lparr>minithumbnail := minithumbnail new_video_note\<rparr> else v);
                     v = (if thumbnail v \<noteq> thumbnail new_video_note
                          then v\<lparr>thumbnail := thumbnail new_video_note\<rparr> else v);
                     upd = update_from td (transcription_info v) (transcription_info new_video_note);
                     v = v\<lparr>transcription_info := fst upd\<rparr>;
                     s = s\<lparr>video_notes := (video_notes s)(fid \<mapsto> v)\<rparr>
                 in Inr (fid, if snd upd then on_video_note_transcription_completed fid s else s)
             else Inr (fid, s)))"


text \<open>\<^verbatim>\<open>dup_video_note\<close>, lines 118-134.\<close>

definition dup_video_note ::
  "Td \<Rightarrow> FileId \<Rightarrow> FileId \<Rightarrow> VideoNotesManager \<Rightarrow> fatal + (FileId \<times> VideoNotesManager)" where
  "dup_video_note td new_id old_id s =
     (case get_video_note s old_id of
        None \<Rightarrow> Inl CheckFailed
      | Some old_video_note \<Rightarrow>
          (case video_notes s new_id of
             Some v \<Rightarrow> Inl CheckFailed
           | None \<Rightarrow>
               let new_thumbnail = thumbnail old_video_note;
                   new_thumbnail = new_thumbnail
                     \<lparr>thumb_file_id := dup_file_id td (effects s) (thumb_file_id new_thumbnail)\<rparr>;
                   new_video_note =
                     \<lparr>file_id = new_id,
                      duration = duration old_video_note,
                      dimensions = dimensions old_video_note,
                      waveform = waveform old_video_note,
                      minithumbnail = minithumbnail old_video_note,
                      thumbnail = new_thumbnail,
                      transcription_info = copy_if_transcribed td (transcription_info old_video_note)\<rparr>
               in Inr (new_id,
                       s\<lparr>video_notes := (video_notes s)(new_id \<mapsto> new_video_note),
                         effects := effects s
                           @ [FileManager_dup_file_id (thumb_file_id (thumbnail old_video_note))]\<rparr>)))"

text \<open>\<^verbatim>\<open>merge_video_notes\<close>, lines 136-153. The body of the test on the two thumbnails is
  a commented-out call in the source, so both of its branches leave the state as it is.\<close>

definition merge_video_notes ::
  "Td \<Rightarrow> FileId \<Rightarrow> FileId \<Rightarrow> VideoNotesManager \<Rightarrow> fatal + VideoNotesManager" where
  "merge_video_notes td new_id old_id s =
     (if \<not> (is_valid old_id \<and> is_valid new_id) then Inl CheckFailed
      else if \<not> new_id \<noteq> old_id then Inl CheckFailed
      else
        (case get_video_note s old_id of
           None \<Rightarrow> Inl CheckFailed
         | Some old \<Rightarrow>
             (case get_video_note s new_id of
                None \<Rightarrow>
                  (case dup_video_note td new_id old_id s of
                     Inl e \<Rightarrow> Inl e
                   | Inr (r, s1) \<Rightarrow>
                       Inr (s1\<lparr>effects := effects s1 @ [FileManager_merge new_id old_id]\<rparr>))
              | Some new \<Rightarrow>
                  let s1 = (if thumbnail old \<noteq> thumbnail new then s else s)
                  in Inr (s1\<lparr>effects := effects s1 @ [FileManager_merge new_id old_id]\<rparr>))))"

text \<open>\<^verbatim>\<open>create_video_note\<close>, lines 155-171.\<close>

definition create_video_note ::
  "Td \<Rightarrow> FileId \<Rightarrow> string \<Rightarrow> PhotoSize \<Rightarrow> int \<Rightarrow> Dimensions \<Rightarrow> string \<Rightarrow> bool \<Rightarrow> VideoNotesManager
     \<Rightarrow> fatal + (FileId \<times> VideoNotesManager)" where
  "create_video_note td fid mini thumb dur dims wave replace s =
     on_get_video_note td
       \<lparr>file_id = fid,
        duration = max dur 0,
        dimensions = (if width dims = height dims \<and> width dims \<le> 640 then dims
                      else \<lparr>width = 0, height = 0\<rparr>),
        waveform = wave,
        minithumbnail = (if \<not> is_bot td then mini else []),
        thumbnail = thumb,
        transcription_info = None\<rparr>
       replace s"

text \<open>The policy gate shared by \<^verbatim>\<open>register_video_note\<close> and \<^verbatim>\<open>unregister_video_note\<close>
  (lines 175-178 and 189-192): such contexts are not tracked.\<close>

definition not_tracked :: "Td \<Rightarrow> FullMessageId \<Rightarrow> bool" where
  "not_tracked td full_message_id \<longleftrightarrow>
     is_scheduled (get_message_id full_message_id)
     \<or> \<not> is_server (get_message_id full_message_id)
     \<or> is_bot td"

text \<open>\<^verbatim>\<open>register_video_note\<close>, lines 173-185. \<^verbatim>\<open>video_note_messages_[id]\<close> creates an empty
  set when the handle has none.\<close>

definition register_video_note ::
  "Td \<Rightarrow> FileId \<Rightarrow> FullMessageId \<Rightarrow> VideoNotesManager \<Rightarrow> fatal + VideoNotesManager" where
  "register_video_note td video_note_file_id full_message_id s =
     (if not_tracked td full_message_id then Inr s
      else if \<not> is_valid video_note_file_id then Inl CheckFailed
      else
        let message_ids = (case video_note_messages s video_note_file_id of
                             None \<Rightarrow> [] | Some ms \<Rightarrow> ms);
            is_inserted = (full_message_id \<notin> set message_ids)
        in if \<not> is_inserted then Inl CheckFailed
           else
             let s = s\<lparr>video_note_messages :=
                        (video_note_messages s)(video_note_file_id \<mapsto> message_ids @ [full_message_id])\<rparr>;
                 is_inserted = (message_video_notes s full_message_id = None)
             in if \<not> is_inserted then Inl CheckFailed
                else Inr (s\<lparr>message_video_notes :=
                             (message_video_notes s)(full_message_id \<mapsto> video_note_file_id)\<rparr>))"

text \<open>\<^verbatim>\<open>unregister_video_note\<close>, lines 187-203.\<close>

definition unregister_video_note ::
  "Td \<Rightarrow> FileId \<Rightarrow> FullMessageId \<Rightarrow> VideoNotesManager \<Rightarrow> fatal + VideoNotesManager" where
  "unregister_video_note td video_note_file_id full_message_id s =
     (if not_tracked td full_message_id then Inr s
      else if \<not> is_valid video_note_file_id then Inl CheckFailed
      else
        let message_ids = (case video_note_messages s video_note_file_id of
                             None \<Rightarrow> [] | Some ms \<Rightarrow> ms);
            is_deleted = (full_message_id \<in> set message_ids);
            message_ids = removeAll full_message_id message_ids
        in if \<not> is_deleted then Inl CheckFailed
           else
             let s = (if message_ids = []
                      then s\<lparr>video_note_messages := (video_note_messages s)(video_note_file_id := None)\<rparr>
                      else s\<lparr>video_note_messages :=
                               (video_note_messages s)(video_note_file_id \<mapsto> message_ids)\<rparr>);
                 is_deleted = (message_video_notes s full_message_id \<noteq> None)
             in if \<not> is_deleted then Inl CheckFailed
                else Inr (s\<lparr>message_video_notes := (message_video_notes s)(full_message_id := None)\<rparr>))"

text \<open>Modelled from the spec: \<^verbatim>\<open>set_promises\<close> and \<^verbatim>\<open>fail_promises\<close> (Promise.h is not among the
  files covered) fulfil, respectively reject with the given error, every promise handed to them.\<close>

definition set_promises :: "Promise list \<Rightarrow> VideoNotesManager \<Rightarrow> VideoNotesManager" where
  "set_promises promises s = s\<lparr>effects := effects s @ map Promise_set_value promises\<rparr>"

definition fail_promises :: "Promise list \<Rightarrow> Status \<Rightarrow> VideoNotesManager \<Rightarrow> VideoNotesManager" where
  "fail_promises promises err s =
     s\<lparr>effects := effects s @ map (\<lambda>p. Promise_set_error p err) promises\<rparr>"

text \<open>Writing the transcription state of a cached video note through the pointer
  \<^verbatim>\<open>video_note->transcription_info\<close>.\<close>

definition set_transcription_info ::
  "FileId \<Rightarrow> VideoNote \<Rightarrow> TranscriptionInfo \<Rightarrow> VideoNotesManager \<Rightarrow> VideoNotesManager" where
  "set_transcription_info fid v info s =
     s\<lparr>video_notes := (video_notes s)(fid \<mapsto> v\<lparr>transcription_info := Some info\<rparr>)\<rparr>"

text \<open>\<^verbatim>\<open>on_transcribed_audio_update\<close>, lines 225-263. The update is a
  \<^verbatim>\<open>Result<updateTranscribedAudio>\<close>: an error or a value.\<close>

definition on_transcribed_audio_update ::
  "Td \<Rightarrow> FileId \<Rightarrow> bool \<Rightarrow> Status + updateTranscribedAudio \<Rightarrow> VideoNotesManager
     \<Rightarrow> fatal + VideoNotesManager" where
  "on_transcribed_audio_update td fid is_initial r_update s =
     (if close_flag td then Inr s
      else
        (case get_video_note s fid of
           None \<Rightarrow> Inl CheckFailed
         | Some video_note \<Rightarrow>
             (case transcription_info video_note of
                None \<Rightarrow> Inl CheckFailed
              | Some info \<Rightarrow>
                  (case r_update of
                     Inl err \<Rightarrow>
                       let r = on_failed_transcription info err;
                           s = set_transcription_info fid video_note (fst r) s;
                           s = on_video_note_transcription_updated fid s
                       in Inr (fail_promises (snd r) err s)
                   | Inr update \<Rightarrow>
                       if \<not> pending update then
                         let r = on_final_transcription info (update_text update)
                                   (update_transcription_id update);
                             s = set_transcription_info fid video_note (fst r) s;
                             s = on_video_note_transcription_completed fid s
                         in Inr (set_promises (snd r) s)
                       else
                         let r = on_partial_transcription info (update_text update)
                                   (update_transcription_id update);
                             s = set_transcription_info fid video_note (fst r) s;
                             s = (if snd r then on_video_note_transcription_updated fid s else s);
                             s = (if is_initial
                                  then s\<lparr>effects := effects s
                                         @ [subscribe_to_transcribed_audio_updates
                                              (update_transcription_id update) fid]\<rparr>
                                  else s)
                         in Inr s))))"

section \<open>Payments.cpp: validation of caller input\<close>

text \<open>External (\<^verbatim>\<open>td_api\<close>) shapes.\<close>

datatype InputInvoice =
    inputInvoiceMessage (chat_id: int) (message_id: int)
  | inputInvoiceName string

record address =
  country_code :: string
  state :: string
  city :: string
  street_line1 :: string
  street_line2 :: string
  postal_code :: string

record orderInfo =
  name :: string
  phone_number :: string
  email_address :: string
  shipping_address :: "address option"

record shippingOption =
  option_id :: string
  option_title :: string
  price_parts :: "labeledPricePart option list"

text \<open>Wire (\<^verbatim>\<open>telegram_api\<close>) shapes. An input peer is opaque.\<close>

type_synonym InputPeer = int

datatype wire_InputInvoice =
    wire_inputInvoiceMessage InputPeer int
  | wire_inputInvoiceSlug string

record postAddress =
  wire_street_line1 :: string
  wire_street_line2 :: string
  wire_city :: string
  wire_state :: string
  wire_country_iso2 :: string
  wire_post_code :: string

record paymentRequestedInfo =
  info_flags :: int32
  info_name :: string
  info_phone :: string
  info_email :: string
  info_shipping_address :: "postAddress option"

record wire_shippingOption =
  wire_id :: string
  wire_title :: string
  wire_prices :: "labeledPrice option list"

record InputInvoiceInfo =
  dialog_id :: int
  input_invoice :: wire_InputInvoice

text \<open>The two queries as they are handed to the network: the arguments of
  \<^verbatim>\<open>telegram_api::payments_validateRequestedInfo\<close> and of
  \<^verbatim>\<open>telegram_api::messages_setBotShippingResults\<close>.\<close>

record payments_validateRequestedInfo =
  validate_flags :: int32
  validate_invoice :: wire_InputInvoice
  validate_info :: paymentRequestedInfo

record messages_setBotShippingResults =
  results_flags :: int32
  results_query_id :: int64
  results_error :: string
  results_shipping_options :: "wire_shippingOption list"

text \<open>What Payments.cpp uses from other files: \<^verbatim>\<open>clean_input_string\<close> (it rewrites
  the string in place and returns whether it succeeded: \<open>None\<close> is failure, \<open>Some\<close> the
  string after the call), \<^verbatim>\<open>check_currency_amount\<close>, the two look-ups of the messages
  manager, and the generated flag masks.\<close>

record payments_td =
  clean_input_string :: "string \<Rightarrow> string option"
  check_currency_amount :: "int64 \<Rightarrow> bool"
  get_invoice_message_id :: "int \<Rightarrow> int \<Rightarrow> Status + int"
  get_input_peer :: "int \<Rightarrow> InputPeer option"
  NAME_MASK :: int32
  PHONE_MASK :: int32
  EMAIL_MASK :: int32
  SHIPPING_ADDRESS_MASK :: int32
  SAVE_MASK :: int32
  ERROR_MASK :: int32
  SHIPPING_OPTIONS_MASK :: int32

text \<open>\<^verbatim>\<open>get_input_invoice_info\<close>, lines 43-75. The two cases are all the constructors of
  the external type.\<close>

definition get_input_invoice_info :: "payments_td \<Rightarrow> InputInvoice option \<Rightarrow> Status + InputInvoiceInfo" where
  "get_input_invoice_info td inp =
     (case inp of
        None \<Rightarrow> Inl (Error 400 ''Input invoice must be non-empty'')
      | Some (inputInvoiceMessage c m) \<Rightarrow>
          (case get_invoice_message_id td c m of
             Inl st \<Rightarrow> Inl st
           | Inr server_message_id \<Rightarrow>
               (case get_input_peer td c of
                  None \<Rightarrow> Inl (Error 400 ''Can't access the chat'')
                | Some input_peer \<Rightarrow>
                    Inr \<lparr>dialog_id = c,
                         input_invoice = wire_inputInvoiceMessage input_peer server_message_id\<rparr>))
      | Some (inputInvoiceName n) \<Rightarrow>
          Inr \<lparr>dialog_id = 0, input_invoice = wire_inputInvoiceSlug n\<rparr>)"

text \<open>\<^verbatim>\<open>convert_address\<close> (lines 281-288) and \<^verbatim>\<open>convert_order_info\<close> (lines 310-331), from
  the external to the wire shape.\<close>

definition convert_address :: "address option \<Rightarrow> postAddress option" where
  "convert_address a =
     (case a of
        None \<Rightarrow> None
      | Some a \<Rightarrow>
          Some \<lparr>wire_street_line1 = street_line1 a, wire_street_line2 = street_line2 a,
                wire_city = city a, wire_state = state a,
                wire_country_iso2 = country_code a, wire_post_code = postal_code a\<rparr>)"

definition convert_order_info :: "payments_td \<Rightarrow> orderInfo option \<Rightarrow> paymentRequestedInfo option" where
  "convert_order_info td order_info =
     (case order_info of
        None \<Rightarrow> None
      | Some oi \<Rightarrow>
          let fl = 0;
              fl = (if name oi \<noteq> [] then fl OR NAME_MASK td else fl);
              fl = (if phone_number oi \<noteq> [] then fl OR PHONE_MASK td else fl);
              fl = (if email_address oi \<noteq> [] then fl OR EMAIL_MASK td else fl);
              fl = (if shipping_address oi \<noteq> None then fl OR SHIPPING_ADDRESS_MASK td else fl)
          in Some \<lparr>info_flags = fl, info_name = name oi, info_phone = phone_number oi,
                   info_email = email_address oi,
                   info_shipping_address = convert_address (shipping_address oi)\<rparr>)"

text \<open>\<^verbatim>\<open>ValidateRequestedInfoQuery::send\<close>, lines 419-433.\<close>

definition ValidateRequestedInfoQuery_send ::
  "payments_td \<Rightarrow> InputInvoiceInfo \<Rightarrow> paymentRequestedInfo option \<Rightarrow> bool
     \<Rightarrow> payments_validateRequestedInfo" where
  "ValidateRequestedInfoQuery_send td input_invoice_info requested_info allow_save =
     (let fl = (if allow_save then 0 OR SAVE_MASK td else 0);
          requested_info =
            (case requested_info of
               None \<Rightarrow> \<lparr>info_flags = 0, info_name = [], info_phone = [], info_email = [],
                         info_shipping_address = None\<rparr>
             | Some r \<Rightarrow> r)
      in \<lparr>validate_flags = fl, validate_invoice = input_invoice input_invoice_info,
          validate_info = requested_info\<rparr>)"

text \<open>One test \<^verbatim>\<open>if (!clean_input_string(field)) return promise.set_error(Status::Error(400, msg))\<close>
  followed by the rest of the function, which sees the string as the call left it.\<close>

definition clean_or_400 ::
  "payments_td \<Rightarrow> string \<Rightarrow> string \<Rightarrow> (string \<Rightarrow> Status + 'a) \<Rightarrow> Status + 'a" where
  "clean_or_400 td str msg rest =
     (case clean_input_string td str of
        None \<Rightarrow> Inl (Error 400 msg)
      | Some str' \<Rightarrow> rest str')"

text \<open>\<^verbatim>\<open>validate_order_info\<close>, lines 758-797. \<open>Inl\<close> is \<^verbatim>\<open>promise.set_error\<close> with nothing
  sent; \<open>Inr\<close> is the query handed to the network.\<close>

definition validate_address :: "payments_td \<Rightarrow> address \<Rightarrow> Status + address" where
  "validate_address td a =
     clean_or_400 td (country_code a) ''Country code must be encoded in UTF-8'' (\<lambda>cc.
     clean_or_400 td (state a) ''State must be encoded in UTF-8'' (\<lambda>st.
     clean_or_400 td (city a) ''City must be encoded in UTF-8'' (\<lambda>ci.
     clean_or_400 td (street_line1 a) ''Street address must be encoded in UTF-8'' (\<lambda>l1.
     clean_or_400 td (street_line2 a) ''Street address must be encoded in UTF-8'' (\<lambda>l2.
     clean_or_400 td (postal_code a) ''Postal code must be encoded in UTF-8'' (\<lambda>pc.
       Inr \<lparr>country_code = cc, state = st, city = ci, street_line1 = l1, street_line2 = l2,
            postal_code = pc\<rparr>))))))"

definition validate_order_info ::
  "payments_td \<Rightarrow> InputInvoice option \<Rightarrow> orderInfo option \<Rightarrow> bool
     \<Rightarrow> Status + payments_validateRequestedInfo" where
  "validate_order_info td inp order_info allow_save =
     (case get_input_invoice_info td inp of
        Inl st \<Rightarrow> Inl st
      | Inr input_invoice_info \<Rightarrow>
          (case (case order_info of
                   None \<Rightarrow> Inr None
                 | Some oi \<Rightarrow>
                     clean_or_400 td (name oi) ''Name must be encoded in UTF-8'' (\<lambda>n.
                     clean_or_400 td (phone_number oi) ''Phone number must be encoded in UTF-8'' (\<lambda>ph.
                     clean_or_400 td (email_address oi) ''Email address must be encoded in UTF-8'' (\<lambda>em.
                       (case shipping_address oi of
                          None \<Rightarrow>
                            Inr (Some \<lparr>name = n, phone_number = ph, email_address = em,
                                       shipping_address = None\<rparr>)
                        | Some a \<Rightarrow>
                            (case validate_address td a of
                               Inl st \<Rightarrow> Inl st
                             | Inr a' \<Rightarrow>
                                 Inr (Some \<lparr>name = n, phone_number = ph, email_address = em,
                                            shipping_address = Some a'\<rparr>))))))) of
             Inl st \<Rightarrow> Inl st
           | Inr order_info' \<Rightarrow>
               Inr (ValidateRequestedInfoQuery_send td input_invoice_info
                      (convert_order_info td order_info') allow_save)))"

text \<open>\<^verbatim>\<open>answer_shipping_query\<close>, lines 701-737: the inner loop over the price parts of one
  option, the outer loop over the options, and \<^verbatim>\<open>SetBotShippingAnswerQuery::send\<close>
  (lines 86-97). Each loop returns at the first element that fails.\<close>

fun convert_price_parts ::
  "payments_td \<Rightarrow> labeledPricePart option list \<Rightarrow> Status + labeledPrice option list" where
  "convert_price_parts td [] = Inr []"
| "convert_price_parts td (price_part # rest) =
     (case price_part of
        None \<Rightarrow> Inl (Error 400 ''Shipping option price part must be non-empty'')
      | Some pp \<Rightarrow>
          clean_or_400 td (part_label pp)
            ''Shipping option price part label must be encoded in UTF-8'' (\<lambda>l.
            if \<not> check_currency_amount td (part_amount pp)
            then Inl (Error 400 ''Too big amount of the currency specified'')
            else
              (case convert_price_parts td rest of
                 Inl st \<Rightarrow> Inl st
               | Inr ps \<Rightarrow> Inr (Some \<lparr>label = l, amount = part_amount pp\<rparr> # ps))))"

fun convert_shipping_options ::
  "payments_td \<Rightarrow> shippingOption option list \<Rightarrow> Status + wire_shippingOption list" where
  "convert_shipping_options td [] = Inr []"
| "convert_shipping_options td (opt # rest) =
     (case opt of
        None \<Rightarrow> Inl (Error 400 ''Shipping option must be non-empty'')
      | Some so \<Rightarrow>
          clean_or_400 td (option_id so)
            ''Shipping option identifier must be encoded in UTF-8'' (\<lambda>i.
          clean_or_400 td (option_title so)
            ''Shipping option title must be encoded in UTF-8'' (\<lambda>t.
            (case convert_price_parts td (price_parts so) of
               Inl st \<Rightarrow> Inl st
             | Inr ps \<Rightarrow>
                 (case convert_shipping_options td rest of
                    Inl st \<Rightarrow> Inl st
                  | Inr os \<Rightarrow> Inr (\<lparr>wire_id = i, wire_title = t, wire_prices = ps\<rparr> # os))))))"

definition SetBotShippingAnswerQuery_send ::
  "payments_td \<Rightarrow> int64 \<Rightarrow> string \<Rightarrow> wire_shippingOption list \<Rightarrow> messages_setBotShippingResults" where
  "SetBotShippingAnswerQuery_send td shipping_query_id err_message shipping_options =
     (let fl = 0;
          fl = (if err_message \<noteq> [] then fl OR ERROR_MASK td else fl);
          fl = (if shipping_options \<noteq> [] then fl OR SHIPPING_OPTIONS_MASK td else fl)
      in \<lparr>results_flags = fl, results_query_id = shipping_query_id, results_error = err_message,
          results_shipping_options = shipping_options\<rparr>)"

definition answer_shipping_query ::
  "payments_td \<Rightarrow> int64 \<Rightarrow> shippingOption option list \<Rightarrow> string
     \<Rightarrow> Status + messages_setBotShippingResults" where
  "answer_shipping_query td shipping_query_id shipping_options err_message =
     (case convert_shipping_options td shipping_options of
        Inl st \<Rightarrow> Inl st
      | Inr opts \<Rightarrow> Inr (SetBotShippingAnswerQuery_send td shipping_query_id err_message opts))"

section \<open>Properties of the back-reference registry and of traces\<close>

text \<open>The pair (handle, context) is present in the handle-to-contexts direction.\<close>

definition registered :: "VideoNotesManager \<Rightarrow> FileId \<Rightarrow> FullMessageId \<Rightarrow> bool" where
  "registered s h m \<longleftrightarrow>
     (case video_note_messages s h of None \<Rightarrow> False | Some ms \<Rightarrow> m \<in> set ms)"

text \<open>The registry invariant of the spec: a pair is present in one direction exactly when it is
  present in the other, and no handle is mapped to an empty set of contexts.\<close>

definition registry_invariant :: "VideoNotesManager \<Rightarrow> bool" where
  "registry_invariant s \<longleftrightarrow>
     (\<forall>h m. registered s h m \<longleftrightarrow> message_video_notes s m = Some h)
     \<and> (\<forall>h. video_note_messages s h \<noteq> Some [])"

text \<open>The terminal resolutions (fulfilment or rejection) of one promise in a trace of calls.\<close>

fun resolves :: "Promise \<Rightarrow> effect \<Rightarrow> bool" where
  "resolves p (Promise_set_value q) = (q = p)"
| "resolves p (Promise_set_error q e) = (q = p)"
| "resolves p other = False"

definition resolutions :: "Promise \<Rightarrow> effect list \<Rightarrow> nat" where
  "resolutions p trace = length (filter (resolves p) trace)"

text \<open>The user-supplied string fields of an address and of an order info, in the order in
  which \<^verbatim>\<open>validate_order_info\<close> examines them, each with the text that names it in the
  error.\<close>

definition address_fields :: "address \<Rightarrow> (string \<times> string) list" where
  "address_fields a =
     [(country_code a, ''Country code must be encoded in UTF-8''),
      (state a, ''State must be encoded in UTF-8''),
      (city a, ''City must be encoded in UTF-8''),
      (street_line1 a, ''Street address must be encoded in UTF-8''),
      (street_line2 a, ''Street address must be encoded in UTF-8''),
      (postal_code a, ''Postal code must be encoded in UTF-8'')]"

definition order_info_fields :: "orderInfo \<Rightarrow> (string \<times> string) list" where
  "order_info_fields oi =
     [(name oi, ''Name must be encoded in UTF-8''),
      (phone_number oi, ''Phone number must be encoded in UTF-8''),
      (email_address oi, ''Email address must be encoded in UTF-8'')]
     @ (case shipping_address oi of None \<Rightarrow> [] | Some a \<Rightarrow> address_fields a)"

text \<open>The first field of a list that fails the clean-for-transmission check.\<close>

definition first_unclean :: "payments_td \<Rightarrow> (string \<times> string) list \<Rightarrow> (string \<times> string) option" where
  "first_unclean td fs = List.find (\<lambda>f. clean_input_string td (fst f) = None) fs"

text \<open>Some identifier, title or price-part label of the shipping options fails the check.\<close>

definition unclean_shipping_option :: "payments_td \<Rightarrow> shippingOption \<Rightarrow> bool" where
  "unclean_shipping_option td so \<longleftrightarrow>
     clean_input_string td (option_id so) = None
     \<or> clean_input_string td (option_title so) = None
     \<or> (\<exists>pp. Some pp \<in> set (price_parts so) \<and> clean_input_string td (part_label pp) = None)"

section \<open>The resource subsystem, from the spec\<close>










section \<open>Example inputs\<close>

text \<open>A range check, flag masks and an invoice on which the theorems below are run.\<close>

definition example_check :: "int64 \<Rightarrow> bool" where
  "example_check a \<longleftrightarrow> - (2 ^ 40) <s a \<and> a <s 2 ^ 40"

definition example_masks :: invoice_masks where
  "example_masks = \<lparr>TEST_MASK = 1, NAME_REQUESTED_MASK = 2, PHONE_REQUESTED_MASK = 4,
     EMAIL_REQUESTED_MASK = 8, SHIPPING_ADDRESS_REQUESTED_MASK = 16, PHONE_TO_PROVIDER_MASK = 64,
     EMAIL_TO_PROVIDER_MASK = 128, FLEXIBLE_MASK = 32\<rparr>"

definition example_invoice :: invoice where
  "example_invoice = \<lparr>flags = 0, currency = ''USD'',
     prices = [Some \<lparr>label = ''Tax'', amount = 500\<rparr>],
     max_tip_amount = - 5,
     suggested_tip_amounts = [100, - 1, 200, 2 ^ 41, 300, 400, 500],
     recurring_terms_url = []\<rparr>"

text \<open>Sample collaborators, a video note with a given handle, duration and thumbnail handle, and
  caches built from a list of entries.\<close>

definition example_td :: Td where
  "example_td =
     \<lparr>is_bot = False, close_flag = False,
      dup_file_id = (\<lambda>calls f. if is_valid f then f + 1000 + int (length calls) else 0),
      copy_if_transcribed =
        (\<lambda>i. case i of
                None \<Rightarrow> None
              | Some t \<Rightarrow> if phase t = Final then Some (t\<lparr>speech_recognition_queries := []\<rparr>) else None),
      update_from = (\<lambda>old new. (old, False))\<rparr>"

definition example_note :: "FileId \<Rightarrow> int \<Rightarrow> FileId \<Rightarrow> VideoNote" where
  "example_note fid dur thumb =
     \<lparr>file_id = fid, duration = dur, dimensions = \<lparr>width = 240, height = 240\<rparr>,
      waveform = [], minithumbnail = [],
      thumbnail = \<lparr>thumb_type = 1, thumb_dimensions = \<lparr>width = 90, height = 90\<rparr>,
                   thumb_size = 1024, thumb_file_id = thumb\<rparr>,
      transcription_info = None\<rparr>"

definition empty_manager :: VideoNotesManager where
  "empty_manager =
     \<lparr>video_notes = Map.empty, video_note_messages = Map.empty,
      message_video_notes = Map.empty, effects = []\<rparr>"

definition example_cache :: "(FileId \<times> VideoNote) list \<Rightarrow> VideoNotesManager" where
  "example_cache entries = empty_manager\<lparr>video_notes := map_of entries\<rparr>"

text \<open>A transcription in progress with two waiters, message contexts, and a manager holding
  them; a cache with two video notes whose thumbnails differ.\<close>

definition example_pending :: TranscriptionInfo where
  "example_pending =
     \<lparr>transcription_id = 77, phase = Partial, transcription_text = ''hel'',
      speech_recognition_queries = [1, 2]\<rparr>"

definition example_message :: "int \<Rightarrow> FullMessageId" where
  "example_message n = FullMessageId 100 (MessageId n False True)"

definition example_transcribing :: VideoNotesManager where
  "example_transcribing =
     \<lparr>video_notes = [7 \<mapsto> (example_note 7 5 0)\<lparr>transcription_info := Some example_pending\<rparr>],
      video_note_messages = [7 \<mapsto> [example_message 1, example_message 2]],
      message_video_notes = [example_message 1 \<mapsto> 7, example_message 2 \<mapsto> 7],
      effects = []\<rparr>"

definition example_two :: VideoNotesManager where
  "example_two = example_cache [(1, example_note 1 5 10), (2, example_note 2 5 20)]"

text \<open>The manager after message 1 of the examples has been registered under handle 7.\<close>

definition example_registered :: VideoNotesManager where
  "example_registered =
     empty_manager\<lparr>video_note_messages := [7 \<mapsto> [example_message 1]],
                   message_video_notes := [example_message 1 \<mapsto> 7]\<rparr>"

text \<open>Sample collaborators of Payments.cpp: a string is clean when it is plain ASCII, every
  invoice message and chat resolves; an order info whose name is not clean, and a shipping
  option whose price-part label is not clean.\<close>

definition example_payments_td :: payments_td where
  "example_payments_td =
     \<lparr>clean_input_string = (\<lambda>str. if list_all (\<lambda>c. of_char c < (128::nat)) str then Some str else None),
      check_currency_amount = example_check,
      get_invoice_message_id = (\<lambda>c m. Inr m),
      get_input_peer = (\<lambda>c. Some c),
      NAME_MASK = 1, PHONE_MASK = 2, EMAIL_MASK = 4, SHIPPING_ADDRESS_MASK = 8,
      SAVE_MASK = 1, ERROR_MASK = 1, SHIPPING_OPTIONS_MASK = 2\<rparr>"

definition example_order_info :: orderInfo where
  "example_order_info =
     \<lparr>name = [CHR 0xFF], phone_number = ''+100'', email_address = ''a@b.c'',
      shipping_address = None\<rparr>"

definition example_shipping_option :: shippingOption where
  "example_shipping_option =
     \<lparr>option_id = ''fast'', option_title = ''Fast'',
      price_parts = [Some \<lparr>part_label = [CHR 0xFF], part_amount = 100\<rparr>]\<rparr>"




section \<open>Protocol translation: amounts\<close>

text \<open>Claim C8. For every labeled price, \<^verbatim>\<open>convert_labeled_price\<close> returns a labeled price
  part with the label unchanged and never an error. An amount that passes the currency
  range check is passed through unchanged and nothing is logged. An amount that fails it is
  replaced by the sentinel of magnitude \<open>2 ^ 40\<close> with the sign of the original (negative
  amounts become \<open>- 2 ^ 40\<close>, the others \<open>2 ^ 40\<close>), and the defect is logged.\<close>

theorem convert_labeled_price_clamps:
  "\<exists>part log. convert_labeled_price chk (Some lp) = Inr (part, log)
     \<and> part_label part = label lp
     \<and> (chk (amount lp) \<longrightarrow> part_amount part = amount lp \<and> log = [])
     \<and> (\<not> chk (amount lp) \<longrightarrow>
           sint (part_amount part) = (if sint (amount lp) < 0 then - (2 ^ 40) else 2 ^ 40)
           \<and> log = [LOG_ERROR ''Receive invalid labeled price amount '' (amount lp)])"
  by (simp add: convert_labeled_price_def word_sless_alt)

theorem convert_labeled_price_clamps_witness:
  "\<not> example_check (2 ^ 41)
   \<and> convert_labeled_price example_check (Some \<lparr>label = ''Tax'', amount = 2 ^ 41\<rparr>)
       = Inr (\<lparr>part_label = ''Tax'', part_amount = 2 ^ 40\<rparr>,
              [LOG_ERROR ''Receive invalid labeled price amount '' (2 ^ 41)])
   \<and> \<not> example_check (- (2 ^ 41))
   \<and> convert_labeled_price example_check (Some \<lparr>label = ''Tax'', amount = - (2 ^ 41)\<rparr>)
       = Inr (\<lparr>part_label = ''Tax'', part_amount = - (2 ^ 40)\<rparr>,
              [LOG_ERROR ''Receive invalid labeled price amount '' (- (2 ^ 41))])
   \<and> example_check 500
   \<and> convert_labeled_price example_check (Some \<lparr>label = ''Tax'', amount = 500\<rparr>)
       = Inr (\<lparr>part_label = ''Tax'', part_amount = 500\<rparr>, [])"
  using convert_labeled_price_clamps [of example_check "\<lparr>label = ''Tax'', amount = 2 ^ 41\<rparr>"]
  by (simp add: convert_labeled_price_def example_check_def word_sless_alt)

lemma convert_labeled_price_returns:
  "p \<noteq> None \<Longrightarrow> \<exists>y l. convert_labeled_price chk p = Inr (y, l)"
  by (cases p) (simp_all add: convert_labeled_price_def)

lemma transform_prices_returns:
  "list_all (\<lambda>p. p \<noteq> None) ps \<Longrightarrow> \<exists>ys ls. transform (convert_labeled_price chk) ps = Inr (ys, ls)"
proof (induction ps)
  case Nil
  then show ?case by simp
next
  case (Cons p ps)
  from Cons.prems have "p \<noteq> None" by simp
  then obtain y l where "convert_labeled_price chk p = Inr (y, l)"
    using convert_labeled_price_returns by blast
  moreover from Cons obtain ys ls where "transform (convert_labeled_price chk) ps = Inr (ys, ls)"
    by auto
  ultimately show ?case by simp
qed

lemma sanitized_tips:
  "\<forall>a \<in> set (take 4 (remove_if (invalid_tip chk) tips)). 0 \<le> sint a \<and> chk a"
proof
  fix a assume "a \<in> set (take 4 (remove_if (invalid_tip chk) tips))"
  then have "a \<in> set (remove_if (invalid_tip chk) tips)"
    by (rule in_set_takeD)
  then show "0 \<le> sint a \<and> chk a"
    by (auto simp: remove_if_def invalid_tip_def word_sless_alt)
qed

lemma convert_invoice_tips:
  assumes "transform (convert_labeled_price chk) (prices w) = Inr (ys, ls)"
  shows "\<exists>r l. convert_invoice chk M (Some w) = Inr (r, l)
     \<and> inv_max_tip_amount r = (if invalid_tip chk (max_tip_amount w) then 0 else max_tip_amount w)
     \<and> inv_suggested_tip_amounts r = take 4 (remove_if (invalid_tip chk) (suggested_tip_amounts w))"
  using assms by (simp add: convert_invoice_def Let_def)

text \<open>Claim C10. For every wire invoice whose price entries are present,
  \<^verbatim>\<open>convert_invoice\<close> returns an invoice whose maximum tip amount is the wire value, or 0
  when the wire value is negative or fails the currency range check, so it is never
  negative and is either 0 or in range; whose suggested tip amounts are the wire amounts
  with every negative or out-of-range amount removed, cut to the first 4; so every
  suggested amount is non-negative and in range and there are at most 4 of them.\<close>

theorem convert_invoice_sanitizes_tips:
  assumes "list_all (\<lambda>p. p \<noteq> None) (prices w)"
  shows "\<exists>r l. convert_invoice chk M (Some w) = Inr (r, l)
     \<and> inv_max_tip_amount r
         = (if max_tip_amount w <s 0 \<or> \<not> chk (max_tip_amount w) then 0 else max_tip_amount w)
     \<and> 0 \<le> sint (inv_max_tip_amount r)
     \<and> (inv_max_tip_amount r = 0 \<or> chk (inv_max_tip_amount r))
     \<and> inv_suggested_tip_amounts r
         = take 4 (filter (\<lambda>a. \<not> (a <s 0 \<or> \<not> chk a)) (suggested_tip_amounts w))
     \<and> (\<forall>a \<in> set (inv_suggested_tip_amounts r). 0 \<le> sint a \<and> chk a)
     \<and> length (inv_suggested_tip_amounts r) \<le> 4"
proof -
  from assms obtain ys ls where "transform (convert_labeled_price chk) (prices w) = Inr (ys, ls)"
    using transform_prices_returns by blast
  then obtain r l where r: "convert_invoice chk M (Some w) = Inr (r, l)"
    and m: "inv_max_tip_amount r = (if invalid_tip chk (max_tip_amount w) then 0 else max_tip_amount w)"
    and t: "inv_suggested_tip_amounts r = take 4 (remove_if (invalid_tip chk) (suggested_tip_amounts w))"
    using convert_invoice_tips by blast
  have "0 \<le> sint (inv_max_tip_amount r)"
    using m by (simp add: invalid_tip_def word_sless_alt)
  moreover have "inv_max_tip_amount r = 0 \<or> chk (inv_max_tip_amount r)"
    using m by (simp add: invalid_tip_def)
  moreover have "\<forall>a \<in> set (inv_suggested_tip_amounts r). 0 \<le> sint a \<and> chk a"
    unfolding t by (rule sanitized_tips)
  moreover have "inv_suggested_tip_amounts r
         = take 4 (filter (\<lambda>a. \<not> (a <s 0 \<or> \<not> chk a)) (suggested_tip_amounts w))"
    using t by (simp add: remove_if_def invalid_tip_def)
  moreover have "length (inv_suggested_tip_amounts r) \<le> 4"
    using t by simp
  moreover have "inv_max_tip_amount r
         = (if max_tip_amount w <s 0 \<or> \<not> chk (max_tip_amount w) then 0 else max_tip_amount w)"
    using m by (simp add: invalid_tip_def)
  ultimately show ?thesis using r by blast
qed

theorem convert_invoice_sanitizes_tips_witness:
  "list_all (\<lambda>p. p \<noteq> None) (prices example_invoice)
   \<and> (case convert_invoice example_check example_masks (Some example_invoice) of
        Inl e \<Rightarrow> False
      | Inr (r, l) \<Rightarrow> inv_max_tip_amount r = 0 \<and> inv_suggested_tip_amounts r = [100, 200, 300, 400])"
  using convert_invoice_sanitizes_tips [of example_invoice example_check example_masks]
  by (simp add: example_invoice_def example_check_def example_masks_def convert_invoice_def
      convert_labeled_price_def remove_if_def invalid_tip_def word_sless_alt Let_def)

section \<open>Entity cache\<close>

lemma video_notes_completed [simp]:
  "video_notes (on_video_note_transcription_completed fid s) = video_notes s"
  by (simp add: on_video_note_transcription_completed_def split: option.splits)

lemma video_notes_updated [simp]:
  "video_notes (on_video_note_transcription_updated fid s) = video_notes s"
  by (simp add: on_video_note_transcription_updated_def split: option.splits)

text \<open>Claim C2. For every valid handle H that already holds a cached video note, calling
  \<^verbatim>\<open>on_get_video_note\<close> with a candidate at H and replace=false returns H and leaves the
  whole manager, hence every field of the cached entity, unchanged (first writer wins). With
  replace=true (the cached entity carrying H as its own handle) the call returns H and the
  cached duration afterwards is the candidate's: inserting duration 5 and then duration 9
  leaves 5 with replace=false and gives 9 with replace=true.\<close>

theorem on_get_video_note_first_writer_wins:
  assumes "is_valid (file_id new)" and "video_notes s (file_id new) = Some v"
  shows "on_get_video_note td new False s = Inr (file_id new, s)
     \<and> (file_id v = file_id new \<longrightarrow>
          (\<exists>s' v'. on_get_video_note td new True s = Inr (file_id new, s')
              \<and> video_notes s' (file_id new) = Some v'
              \<and> duration v' = duration new))"
  using assms by (simp add: on_get_video_note_def Let_def)

theorem on_get_video_note_first_writer_wins_witness:
  "is_valid 7
   \<and> on_get_video_note example_td (example_note 7 5 0) False empty_manager
       = Inr (7, example_cache [(7, example_note 7 5 0)])
   \<and> on_get_video_note example_td (example_note 7 9 0) False (example_cache [(7, example_note 7 5 0)])
       = Inr (7, example_cache [(7, example_note 7 5 0)])
   \<and> on_get_video_note example_td (example_note 7 9 0) True (example_cache [(7, example_note 7 5 0)])
       = Inr (7, example_cache [(7, example_note 7 9 0)])"
  using on_get_video_note_first_writer_wins
    [of "example_note 7 9 0" "example_cache [(7, example_note 7 5 0)]" "example_note 7 5 0" example_td]
  by (simp add: on_get_video_note_def example_note_def example_cache_def empty_manager_def
      example_td_def is_valid_def Let_def)

section \<open>Incremental updates\<close>

text \<open>Claim C4. Once the close flag is set, the handler of a transcription update, result or
  error, returns at once: the manager after the call is the manager before it, so the
  video-note cache, both directions of the registry, every transcription state and the
  calls made to collaborators are unchanged.\<close>

theorem late_update_after_close_is_ignored:
  "close_flag td \<Longrightarrow> on_transcribed_audio_update td fid is_initial r_update s = Inr s"
  by (simp add: on_transcribed_audio_update_def)

theorem late_update_after_close_is_ignored_witness:
  "close_flag (example_td\<lparr>close_flag := True\<rparr>)
   \<and> on_transcribed_audio_update (example_td\<lparr>close_flag := True\<rparr>) 7 False
        (Inr \<lparr>pending = False, update_transcription_id = 77, update_text = ''hello''\<rparr>)
        example_transcribing = Inr example_transcribing
   \<and> on_transcribed_audio_update (example_td\<lparr>close_flag := True\<rparr>) 7 False
        (Inl (Error 500 ''Internal'')) example_transcribing = Inr example_transcribing"
  using late_update_after_close_is_ignored [of "example_td\<lparr>close_flag := True\<rparr>" 7 False _ example_transcribing]
  by (simp add: example_td_def)

section \<open>Duplicate and merge\<close>

lemma dup_video_note_result:
  assumes "video_notes s old_id = Some old" and "video_notes s new_id = None"
  shows "dup_video_note td new_id old_id s =
     Inr (new_id,
          s\<lparr>video_notes := (video_notes s)(new_id \<mapsto>
               \<lparr>file_id = new_id, duration = duration old, dimensions = dimensions old,
                waveform = waveform old, minithumbnail = minithumbnail old,
                thumbnail = (thumbnail old)
                  \<lparr>thumb_file_id := dup_file_id td (effects s) (thumb_file_id (thumbnail old))\<rparr>,
                transcription_info = copy_if_transcribed td (transcription_info old)\<rparr>),
            effects := effects s @ [FileManager_dup_file_id (thumb_file_id (thumbnail old))]\<rparr>)"
  using assms by (simp add: dup_video_note_def get_video_note_def Let_def)

text \<open>Claim C1, as amended. For distinct valid handles new_id and old_id with old_id cached:
  if new_id is absent, \<^verbatim>\<open>merge_video_notes\<close> does what \<^verbatim>\<open>dup_video_note\<close> does (afterwards
  new_id is cached with the duration, dimensions, waveform and minithumbnail of old_id) and
  then calls the file manager's merge for (new_id, old_id); if new_id is present, the cache
  is left as it is and the only call made is the file manager's merge for (new_id, old_id),
  whatever the two thumbnails are; in both cases the call returns and its last call is the
  file manager's merge for (new_id, old_id).\<close>

theorem merge_video_notes_calls:
  assumes "is_valid new_id" and "is_valid old_id" and "new_id \<noteq> old_id"
    and "video_notes s old_id = Some old"
  shows "(video_notes s new_id = None \<longrightarrow>
            (\<exists>s1 new. dup_video_note td new_id old_id s = Inr (new_id, s1)
               \<and> merge_video_notes td new_id old_id s
                   = Inr (s1\<lparr>effects := effects s1 @ [FileManager_merge new_id old_id]\<rparr>)
               \<and> video_notes s1 new_id = Some new
               \<and> duration new = duration old \<and> dimensions new = dimensions old
               \<and> waveform new = waveform old \<and> minithumbnail new = minithumbnail old))
     \<and> (video_notes s new_id \<noteq> None \<longrightarrow>
            merge_video_notes td new_id old_id s
              = Inr (s\<lparr>effects := effects s @ [FileManager_merge new_id old_id]\<rparr>))
     \<and> (\<exists>s'. merge_video_notes td new_id old_id s = Inr s'
            \<and> effects s' \<noteq> [] \<and> last (effects s') = FileManager_merge new_id old_id)"
proof (cases "video_notes s new_id")
  case None
  with assms show ?thesis
    by (simp add: merge_video_notes_def get_video_note_def dup_video_note_result)
next
  case (Some new)
  with assms show ?thesis
    by (simp add: merge_video_notes_def get_video_note_def)
qed

theorem merge_video_notes_calls_witness:
  "is_valid 2 \<and> is_valid 1 \<and> (2::FileId) \<noteq> 1
   \<and> video_notes (example_cache [(1, example_note 1 5 10)]) 1 = Some (example_note 1 5 10)
   \<and> video_notes (example_cache [(1, example_note 1 5 10)]) 2 = None
   \<and> merge_video_notes example_td 2 1 (example_cache [(1, example_note 1 5 10)])
       = Inr ((example_cache [(2, example_note 2 5 1010), (1, example_note 1 5 10)])
                \<lparr>effects := [FileManager_dup_file_id 10, FileManager_merge 2 1]\<rparr>)
   \<and> video_notes example_two 2 \<noteq> None
   \<and> merge_video_notes example_td 2 1 example_two
       = Inr (example_two\<lparr>effects := [FileManager_merge 2 1]\<rparr>)"
  using merge_video_notes_calls [of 2 1 "example_cache [(1, example_note 1 5 10)]" "example_note 1 5 10" example_td]
    merge_video_notes_calls [of 2 1 example_two "example_note 1 5 10" example_td]
  by (simp add: merge_video_notes_def dup_video_note_def get_video_note_def example_two_def
      example_note_def example_cache_def empty_manager_def example_td_def is_valid_def Let_def)

text \<open>Claim C1 as stated fails: with both handles cached and the thumbnail handles 20 and 10
  different, no merge of the two thumbnail handles is requested.\<close>

theorem merge_video_notes_no_thumbnail_merge:
  "is_valid 2 \<and> is_valid 1
   \<and> video_notes example_two 1 = Some (example_note 1 5 10)
   \<and> video_notes example_two 2 = Some (example_note 2 5 20)
   \<and> thumb_file_id (thumbnail (example_note 2 5 20)) \<noteq> thumb_file_id (thumbnail (example_note 1 5 10))
   \<and> merge_video_notes example_td 2 1 example_two
       = Inr (example_two\<lparr>effects := [FileManager_merge 2 1]\<rparr>)
   \<and> FileManager_merge 20 10 \<notin> set (effects (example_two\<lparr>effects := [FileManager_merge 2 1]\<rparr>))"
  by (simp add: merge_video_notes_def get_video_note_def example_two_def
      example_note_def example_cache_def empty_manager_def is_valid_def)













section \<open>Back-reference registry\<close>

lemma removeAll_empty_only:
  assumes "removeAll m ms = []" and "m' \<in> set ms"
  shows "m' = m"
proof -
  have "set (removeAll m ms) = set ms - {m}" by (rule set_removeAll)
  with assms show ?thesis by auto
qed

lemma register_video_note_tracked:
  assumes "\<not> not_tracked td m"
  shows "register_video_note td h m s =
     (if is_valid h \<and> \<not> registered s h m \<and> message_video_notes s m = None
      then Inr (s\<lparr>video_note_messages :=
                   (video_note_messages s)(h \<mapsto> (case video_note_messages s h of
                                                   None \<Rightarrow> [] | Some ms \<Rightarrow> ms) @ [m]),
                 message_video_notes := (message_video_notes s)(m \<mapsto> h)\<rparr>)
      else Inl CheckFailed)"
  using assms
  by (auto simp: register_video_note_def registered_def Let_def split: option.splits)

lemma unregister_video_note_tracked:
  assumes "\<not> not_tracked td m"
  shows "unregister_video_note td h m s =
     (if is_valid h \<and> registered s h m \<and> message_video_notes s m \<noteq> None
      then Inr (s\<lparr>video_note_messages :=
                   (let ms = removeAll m (the (video_note_messages s h))
                    in if ms = [] then (video_note_messages s)(h := None)
                       else (video_note_messages s)(h \<mapsto> ms)),
                 message_video_notes := (message_video_notes s)(m := None)\<rparr>)
      else Inl CheckFailed)"
  using assms
  by (auto simp: unregister_video_note_def registered_def Let_def split: option.splits)

lemma register_video_note_not_tracked:
  "not_tracked td m \<Longrightarrow> register_video_note td h m s = Inr s"
  by (simp add: register_video_note_def)

lemma unregister_video_note_not_tracked:
  "not_tracked td m \<Longrightarrow> unregister_video_note td h m s = Inr s"
  by (simp add: unregister_video_note_def)

lemma register_preserves:
  assumes inv: "registry_invariant s" and r: "register_video_note td h m s = Inr s'"
  shows "registry_invariant s'"
proof (cases "not_tracked td m")
  case True
  with r inv show ?thesis by (simp add: register_video_note_not_tracked)
next
  case False
  from r False have ok: "\<not> registered s h m" "message_video_notes s m = None"
    and s': "s' = s\<lparr>video_note_messages :=
                   (video_note_messages s)(h \<mapsto> (case video_note_messages s h of
                                                   None \<Rightarrow> [] | Some ms \<Rightarrow> ms) @ [m]),
                 message_video_notes := (message_video_notes s)(m \<mapsto> h)\<rparr>"
    by (auto simp: register_video_note_tracked split: if_splits)
  from inv have both: "\<And>h' m'. registered s h' m' \<longleftrightarrow> message_video_notes s m' = Some h'"
    and nonempty: "\<And>h'. video_note_messages s h' \<noteq> Some []"
    by (simp_all add: registry_invariant_def)
  have "registered s' h' m' \<longleftrightarrow> message_video_notes s' m' = Some h'" for h' m'
  proof (cases "h' = h")
    case True
    show ?thesis
    proof (cases "m' = m")
      case True
      with \<open>h' = h\<close> show ?thesis by (simp add: s' registered_def)
    next
      case False
      have "registered s' h m' \<longleftrightarrow> registered s h m'"
        using False by (simp add: s' registered_def split: option.splits)
      with False \<open>h' = h\<close> both show ?thesis by (simp add: s')
    qed
  next
    case False
    have "registered s' h' m' \<longleftrightarrow> registered s h' m'"
      using False by (simp add: s' registered_def)
    moreover have "m' = m \<Longrightarrow> \<not> registered s h' m'"
      using both ok by simp
    ultimately show ?thesis using False both by (auto simp: s')
  qed
  moreover have "video_note_messages s' h' \<noteq> Some []" for h'
    using nonempty by (simp add: s')
  ultimately show ?thesis by (simp add: registry_invariant_def)
qed

lemma unregister_preserves:
  assumes inv: "registry_invariant s" and r: "unregister_video_note td h m s = Inr s'"
  shows "registry_invariant s'"
proof (cases "not_tracked td m")
  case True
  with r inv show ?thesis by (simp add: unregister_video_note_not_tracked)
next
  case False
  from r False have ok: "registered s h m"
    and s': "s' = s\<lparr>video_note_messages :=
                   (let ms = removeAll m (the (video_note_messages s h))
                    in if ms = [] then (video_note_messages s)(h := None)
                       else (video_note_messages s)(h \<mapsto> ms)),
                 message_video_notes := (message_video_notes s)(m := None)\<rparr>"
    by (auto simp: unregister_video_note_tracked split: if_splits)
  from ok obtain ms where ms: "video_note_messages s h = Some ms" "m \<in> set ms"
    by (auto simp: registered_def split: option.splits)
  from inv have both: "\<And>h' m'. registered s h' m' \<longleftrightarrow> message_video_notes s m' = Some h'"
    and nonempty: "\<And>h'. video_note_messages s h' \<noteq> Some []"
    by (simp_all add: registry_invariant_def)
  have here: "registered s' h m' \<longleftrightarrow> registered s h m' \<and> m' \<noteq> m" for m'
    using ms by (auto simp: s' registered_def Let_def dest: removeAll_empty_only)
  have there: "h' \<noteq> h \<Longrightarrow> registered s' h' m' \<longleftrightarrow> registered s h' m'" for h' m'
    by (simp add: s' registered_def Let_def)
  have "registered s' h' m' \<longleftrightarrow> message_video_notes s' m' = Some h'" for h' m'
  proof (cases "h' = h")
    case True
    with here both show ?thesis by (auto simp: s')
  next
    case False
    have "m' = m \<Longrightarrow> \<not> registered s h' m'"
      using both [of h m] both [of h' m] ok False by auto
    with False there both show ?thesis by (auto simp: s')
  qed
  moreover have "video_note_messages s' h' \<noteq> Some []" for h'
    using nonempty by (simp add: s' Let_def)
  ultimately show ?thesis by (simp add: registry_invariant_def)
qed

text \<open>Claim C6. The registry invariant (a pair (handle, context) is in the handle-to-contexts map
  exactly when the context maps to the handle in the context-to-handle map, and no handle
  maps to an empty set) is preserved by every \<^verbatim>\<open>register_video_note\<close> and
  \<^verbatim>\<open>unregister_video_note\<close> call that completes. A completed registration of a tracked
  context puts the pair in both directions, a completed unregistration removes it from
  both, and when the removed context was the last one of the handle the handle-to-contexts
  map has no entry for the handle afterwards.\<close>

theorem registry_invariant_preserved:
  assumes "registry_invariant s"
  shows "(\<forall>s'. register_video_note td h m s = Inr s' \<longrightarrow>
            registry_invariant s'
            \<and> (\<not> not_tracked td m \<longrightarrow> registered s' h m \<and> message_video_notes s' m = Some h))
     \<and> (\<forall>s'. unregister_video_note td h m s = Inr s' \<longrightarrow>
            registry_invariant s'
            \<and> (\<not> not_tracked td m \<longrightarrow>
                  \<not> registered s' h m \<and> message_video_notes s' m = None
                  \<and> ((\<forall>m'. registered s h m' \<longrightarrow> m' = m) \<longrightarrow> video_note_messages s' h = None)))"
proof (intro conjI allI impI)
  fix s' assume "register_video_note td h m s = Inr s'"
  with assms show "registry_invariant s'" by (rule register_preserves)
next
  fix s' assume "register_video_note td h m s = Inr s'" and "\<not> not_tracked td m"
  then show "registered s' h m" and "message_video_notes s' m = Some h"
    by (auto simp: register_video_note_tracked registered_def split: if_splits)
next
  fix s' assume "unregister_video_note td h m s = Inr s'"
  with assms show "registry_invariant s'" by (rule unregister_preserves)
next
  fix s' assume u: "unregister_video_note td h m s = Inr s'" and t: "\<not> not_tracked td m"
  from u t show "message_video_notes s' m = None"
    by (auto simp: unregister_video_note_tracked split: if_splits)
  from assms u have "registry_invariant s'" by (rule unregister_preserves)
  with \<open>message_video_notes s' m = None\<close> show "\<not> registered s' h m"
    by (simp add: registry_invariant_def)
next
  fix s' assume u: "unregister_video_note td h m s = Inr s'" and t: "\<not> not_tracked td m"
    and last: "\<forall>m'. registered s h m' \<longrightarrow> m' = m"
  from u t have reg: "registered s h m"
    and s': "video_note_messages s' =
               (let ms = removeAll m (the (video_note_messages s h))
                in if ms = [] then (video_note_messages s)(h := None)
                   else (video_note_messages s)(h \<mapsto> ms))"
    by (auto simp: unregister_video_note_tracked split: if_splits)
  from reg obtain ms where ms: "video_note_messages s h = Some ms"
    by (auto simp: registered_def split: option.splits)
  with last have "set ms \<subseteq> {m}" by (auto simp: registered_def)
  then have "removeAll m ms = []"
    by (metis Diff_eq_empty_iff set_empty set_removeAll)
  with ms show "video_note_messages s' h = None" by (simp add: s')
qed

theorem registry_invariant_preserved_witness:
  "registry_invariant empty_manager
   \<and> \<not> not_tracked example_td (example_message 1)
   \<and> register_video_note example_td 7 (example_message 1) empty_manager = Inr example_registered
   \<and> registry_invariant example_registered
   \<and> registered example_registered 7 (example_message 1)
   \<and> message_video_notes example_registered (example_message 1) = Some 7
   \<and> unregister_video_note example_td 7 (example_message 1) example_registered = Inr empty_manager
   \<and> video_note_messages empty_manager 7 = None"
proof -
  have i0: "registry_invariant empty_manager"
    by (simp add: registry_invariant_def registered_def empty_manager_def)
  have t: "\<not> not_tracked example_td (example_message 1)"
    by (simp add: not_tracked_def example_td_def example_message_def)
  have r: "register_video_note example_td 7 (example_message 1) empty_manager = Inr example_registered"
    by (simp add: register_video_note_def t is_valid_def empty_manager_def example_registered_def)
  from registry_invariant_preserved [OF i0, of example_td 7 "example_message 1"] r t
  have i1: "registry_invariant example_registered" "registered example_registered 7 (example_message 1)"
    by simp_all
  have u: "unregister_video_note example_td 7 (example_message 1) example_registered = Inr empty_manager"
    by (simp add: unregister_video_note_def t is_valid_def empty_manager_def example_registered_def)
  from registry_invariant_preserved [OF i1(1), of example_td 7 "example_message 1"] u t
  have "video_note_messages empty_manager 7 = None"
    by (simp add: registered_def example_registered_def empty_manager_def)
  with i0 t r i1 u show ?thesis
    by (simp add: example_registered_def empty_manager_def)
qed

text \<open>Claim C5, as amended. After a \<^verbatim>\<open>register_video_note\<close> call that completed, repeating it
  for the same handle and context aborts on the fatal check when the context is
  non-scheduled and server-side and the client is not a bot; when the client is a bot both
  calls are silent no-ops that leave the manager as it was. In every case the second call
  either aborts or leaves the registry as the first call left it.\<close>

theorem register_video_note_twice:
  assumes "register_video_note td h m s = Inr s1"
  shows "(\<not> is_scheduled (get_message_id m) \<and> is_server (get_message_id m) \<and> \<not> is_bot td
            \<longrightarrow> register_video_note td h m s1 = Inl CheckFailed)
     \<and> (is_bot td \<longrightarrow> s1 = s \<and> register_video_note td h m s1 = Inr s1)
     \<and> (register_video_note td h m s1 = Inl CheckFailed \<or> register_video_note td h m s1 = Inr s1)"
proof (cases "not_tracked td m")
  case True
  with assms show ?thesis
    by (auto simp: register_video_note_not_tracked not_tracked_def)
next
  case False
  with assms have "registered s1 h m"
    by (auto simp: register_video_note_tracked registered_def split: if_splits)
  with False have "register_video_note td h m s1 = Inl CheckFailed"
    by (simp add: register_video_note_tracked)
  with False show ?thesis by (simp add: not_tracked_def)
qed

theorem register_video_note_twice_witness:
  "register_video_note example_td 7 (example_message 1) empty_manager = Inr example_registered
   \<and> \<not> is_scheduled (get_message_id (example_message 1))
   \<and> is_server (get_message_id (example_message 1)) \<and> \<not> is_bot example_td
   \<and> register_video_note example_td 7 (example_message 1) example_registered = Inl CheckFailed
   \<and> is_bot (example_td\<lparr>is_bot := True\<rparr>)
   \<and> register_video_note (example_td\<lparr>is_bot := True\<rparr>) 7 (example_message 1) example_registered
       = Inr example_registered"
proof -
  have r: "register_video_note example_td 7 (example_message 1) empty_manager = Inr example_registered"
    by (simp add: register_video_note_def not_tracked_def example_td_def example_message_def
        is_valid_def empty_manager_def example_registered_def)
  have b: "register_video_note (example_td\<lparr>is_bot := True\<rparr>) 7 (example_message 1) example_registered
       = Inr example_registered"
    by (simp add: register_video_note_def not_tracked_def)
  from register_video_note_twice [OF r] register_video_note_twice [OF b] r b
  show ?thesis by (simp add: example_td_def example_message_def)
qed

text \<open>Claim C5 as stated fails: for a bot, the second registration of a valid handle with a
  non-scheduled server-side context returns normally.\<close>

theorem register_video_note_twice_as_bot:
  "is_valid 7 \<and> \<not> is_scheduled (get_message_id (example_message 1))
   \<and> is_server (get_message_id (example_message 1))
   \<and> register_video_note (example_td\<lparr>is_bot := True\<rparr>) 7 (example_message 1) empty_manager
       = Inr empty_manager
   \<and> register_video_note (example_td\<lparr>is_bot := True\<rparr>) 7 (example_message 1) empty_manager
       \<noteq> Inl CheckFailed"
  by (simp add: register_video_note_def not_tracked_def is_valid_def example_message_def)

section \<open>Incremental updates: resolution of waiters\<close>

lemma resolutions_append: "resolutions p (xs @ ys) = resolutions p xs + resolutions p ys"
  by (simp add: resolutions_def)

lemma resolutions_notifications:
  "resolutions p (map on_update_message_content ms) = 0"
  "resolutions p (map on_external_update_message_content ms) = 0"
  by (induction ms) (simp_all add: resolutions_def)

lemma resolutions_set_value: "resolutions p (map Promise_set_value qs) = count_list qs p"
  by (induction qs) (simp_all add: resolutions_def)

lemma resolutions_set_error:
  "resolutions p (map (\<lambda>q. Promise_set_error q err) qs) = count_list qs p"
  by (induction qs) (simp_all add: resolutions_def)

lemma final_update_result:
  assumes "\<not> close_flag td" and "video_notes s fid = Some v" and "transcription_info v = Some info"
    and "\<not> pending update"
  shows "on_transcribed_audio_update td fid is_initial (Inr update) s =
     Inr (s\<lparr>video_notes := (video_notes s)(fid \<mapsto> v\<lparr>transcription_info := Some
               (info\<lparr>transcription_id := update_transcription_id update, phase := Final,
                     transcription_text := update_text update,
                     speech_recognition_queries := []\<rparr>)\<rparr>),
            effects := effects s
              @ map on_update_message_content
                  (case video_note_messages s fid of None \<Rightarrow> [] | Some ms \<Rightarrow> ms)
              @ map Promise_set_value (speech_recognition_queries info)\<rparr>)"
  using assms
  by (simp add: on_transcribed_audio_update_def get_video_note_def on_final_transcription_def
      set_transcription_info_def on_video_note_transcription_completed_def set_promises_def
      split: option.splits)

lemma error_update_result:
  assumes "\<not> close_flag td" and "video_notes s fid = Some v" and "transcription_info v = Some info"
  shows "on_transcribed_audio_update td fid is_initial (Inl err) s =
     Inr (s\<lparr>video_notes := (video_notes s)(fid \<mapsto> v\<lparr>transcription_info := Some
               (info\<lparr>phase := Failed, speech_recognition_queries := []\<rparr>)\<rparr>),
            effects := effects s
              @ map on_external_update_message_content
                  (case video_note_messages s fid of None \<Rightarrow> [] | Some ms \<Rightarrow> ms)
              @ map (\<lambda>p. Promise_set_error p err) (speech_recognition_queries info)\<rparr>)"
  using assms
  by (simp add: on_transcribed_audio_update_def get_video_note_def on_failed_transcription_def
      set_transcription_info_def on_video_note_transcription_updated_def fail_promises_def
      split: option.splits)

text \<open>Claim C3, as amended. While the close flag is not set, for a cached video note with an
  initialized transcription state: an update carrying pending=false makes the handler
  return with the cached state Final, holding the update's text and no pending waiters,
  after calling \<^verbatim>\<open>on_update_message_content\<close> for every message registered for the
  handle and then fulfilling every pending waiter; an error update makes it return with the
  cached state Failed and no pending waiters, after rejecting every pending waiter with that
  error. In both cases every promise gains exactly as many resolutions as it had entries
  among the pending waiters: one for each waiter.\<close>

theorem transcription_update_resolves_waiters:
  assumes "\<not> close_flag td" and "video_notes s fid = Some v" and "transcription_info v = Some info"
  shows "(\<not> pending update \<longrightarrow>
            (\<exists>s' v' info'. on_transcribed_audio_update td fid is_initial (Inr update) s = Inr s'
               \<and> video_notes s' fid = Some v' \<and> transcription_info v' = Some info'
               \<and> phase info' = Final \<and> transcription_text info' = update_text update
               \<and> speech_recognition_queries info' = []
               \<and> effects s' = effects s
                    @ map on_update_message_content
                        (case video_note_messages s fid of None \<Rightarrow> [] | Some ms \<Rightarrow> ms)
                    @ map Promise_set_value (speech_recognition_queries info)
               \<and> (\<forall>p. resolutions p (effects s')
                      = resolutions p (effects s) + count_list (speech_recognition_queries info) p)))
     \<and> (\<exists>s' v' info'. on_transcribed_audio_update td fid is_initial (Inl err) s = Inr s'
               \<and> video_notes s' fid = Some v' \<and> transcription_info v' = Some info'
               \<and> phase info' = Failed
               \<and> speech_recognition_queries info' = []
               \<and> effects s' = effects s
                    @ map on_external_update_message_content
                        (case video_note_messages s fid of None \<Rightarrow> [] | Some ms \<Rightarrow> ms)
                    @ map (\<lambda>p. Promise_set_error p err) (speech_recognition_queries info)
               \<and> (\<forall>p. resolutions p (effects s')
                      = resolutions p (effects s) + count_list (speech_recognition_queries info) p))"
proof (intro conjI impI)
  assume "\<not> pending update"
  with assms show "\<exists>s' v' info'. on_transcribed_audio_update td fid is_initial (Inr update) s = Inr s'
               \<and> video_notes s' fid = Some v' \<and> transcription_info v' = Some info'
               \<and> phase info' = Final \<and> transcription_text info' = update_text update
               \<and> speech_recognition_queries info' = []
               \<and> effects s' = effects s
                    @ map on_update_message_content
                        (case video_note_messages s fid of None \<Rightarrow> [] | Some ms \<Rightarrow> ms)
                    @ map Promise_set_value (speech_recognition_queries info)
               \<and> (\<forall>p. resolutions p (effects s')
                      = resolutions p (effects s) + count_list (speech_recognition_queries info) p)"
    by (simp add: final_update_result resolutions_append resolutions_notifications
        resolutions_set_value)
next
  from assms show "\<exists>s' v' info'. on_transcribed_audio_update td fid is_initial (Inl err) s = Inr s'
               \<and> video_notes s' fid = Some v' \<and> transcription_info v' = Some info'
               \<and> phase info' = Failed
               \<and> speech_recognition_queries info' = []
               \<and> effects s' = effects s
                    @ map on_external_update_message_content
                        (case video_note_messages s fid of None \<Rightarrow> [] | Some ms \<Rightarrow> ms)
                    @ map (\<lambda>p. Promise_set_error p err) (speech_recognition_queries info)
               \<and> (\<forall>p. resolutions p (effects s')
                      = resolutions p (effects s) + count_list (speech_recognition_queries info) p)"
    by (simp add: error_update_result resolutions_append resolutions_notifications
        resolutions_set_error)
qed

theorem transcription_update_resolves_waiters_witness:
  "\<not> close_flag example_td
   \<and> video_notes example_transcribing 7
       = Some ((example_note 7 5 0)\<lparr>transcription_info := Some example_pending\<rparr>)
   \<and> on_transcribed_audio_update example_td 7 False
        (Inr \<lparr>pending = False, update_transcription_id = 77, update_text = ''hello''\<rparr>)
        example_transcribing
       = Inr (example_transcribing
               \<lparr>video_notes := [7 \<mapsto> (example_note 7 5 0)\<lparr>transcription_info := Some
                    \<lparr>transcription_id = 77, phase = Final, transcription_text = ''hello'',
                     speech_recognition_queries = []\<rparr>\<rparr>],
                effects := [on_update_message_content (example_message 1),
                            on_update_message_content (example_message 2),
                            Promise_set_value 1, Promise_set_value 2]\<rparr>)
   \<and> on_transcribed_audio_update example_td 7 False (Inl (Error 500 ''Internal''))
        example_transcribing
       = Inr (example_transcribing
               \<lparr>video_notes := [7 \<mapsto> (example_note 7 5 0)\<lparr>transcription_info := Some
                    \<lparr>transcription_id = 77, phase = Failed, transcription_text = ''hel'',
                     speech_recognition_queries = []\<rparr>\<rparr>],
                effects := [on_external_update_message_content (example_message 1),
                            on_external_update_message_content (example_message 2),
                            Promise_set_error 1 (Error 500 ''Internal''),
                            Promise_set_error 2 (Error 500 ''Internal'')]\<rparr>)"
  using transcription_update_resolves_waiters
    [of example_td example_transcribing 7
        "(example_note 7 5 0)\<lparr>transcription_info := Some example_pending\<rparr>" example_pending
        "\<lparr>pending = False, update_transcription_id = 77, update_text = ''hello''\<rparr>"]
  by (simp add: on_transcribed_audio_update_def get_video_note_def on_final_transcription_def
      on_failed_transcription_def set_transcription_info_def
      on_video_note_transcription_completed_def on_video_note_transcription_updated_def
      set_promises_def fail_promises_def example_td_def example_transcribing_def
      example_pending_def example_note_def)

text \<open>Claim C3 as stated fails: once the close flag is set, an update carrying pending=false
  is dropped, the two waiters stay pending and nobody is notified.\<close>

theorem transcription_update_dropped_after_close:
  "video_notes example_transcribing 7
       = Some ((example_note 7 5 0)\<lparr>transcription_info := Some example_pending\<rparr>)
   \<and> speech_recognition_queries example_pending = [1, 2]
   \<and> effects example_transcribing = []
   \<and> on_transcribed_audio_update (example_td\<lparr>close_flag := True\<rparr>) 7 True
        (Inr \<lparr>pending = False, update_transcription_id = 77, update_text = ''hello''\<rparr>)
        example_transcribing = Inr example_transcribing"
  by (simp add: on_transcribed_audio_update_def example_transcribing_def example_pending_def)

section \<open>Protocol translation: validation of caller input\<close>

lemma validate_address_first_unclean:
  "first_unclean td (address_fields a) = Some (v, msg) \<Longrightarrow>
     validate_address td a = Inl (Error 400 msg)"
  by (auto simp: first_unclean_def address_fields_def validate_address_def clean_or_400_def
      split: if_splits option.splits)

lemma validate_address_all_clean:
  "first_unclean td (address_fields a) = None \<Longrightarrow> \<exists>a'. validate_address td a = Inr a'"
  by (auto simp: first_unclean_def address_fields_def validate_address_def clean_or_400_def
      split: if_splits option.splits)


lemma first_unclean_order_info:
  "first_unclean td (order_info_fields oi) =
     (if clean_input_string td (name oi) = None
        then Some (name oi, ''Name must be encoded in UTF-8'')
      else if clean_input_string td (phone_number oi) = None
        then Some (phone_number oi, ''Phone number must be encoded in UTF-8'')
      else if clean_input_string td (email_address oi) = None
        then Some (email_address oi, ''Email address must be encoded in UTF-8'')
      else (case shipping_address oi of
              None \<Rightarrow> None
            | Some a \<Rightarrow> first_unclean td (address_fields a)))"
  by (simp add: first_unclean_def order_info_fields_def split: option.splits)

lemma validate_order_info_first_unclean:
  assumes "first_unclean td (order_info_fields oi) = Some (v, msg)"
    and "get_input_invoice_info td inp = Inr info"
  shows "validate_order_info td inp (Some oi) allow_save = Inl (Error 400 msg)"
  using assms
  by (auto simp: first_unclean_order_info validate_order_info_def clean_or_400_def
      validate_address_first_unclean split: if_splits option.splits)

lemma validate_order_info_invoice_error:
  "get_input_invoice_info td inp = Inl st \<Longrightarrow>
     validate_order_info td inp order_info allow_save = Inl st"
  by (simp add: validate_order_info_def)

lemma convert_price_parts_unclean:
  assumes "Some pp \<in> set parts" and "clean_input_string td (part_label pp) = None"
  shows "\<exists>m. convert_price_parts td parts = Inl (Error 400 m)"
  using assms
proof (induction parts)
  case Nil
  then show ?case by simp
next
  case (Cons p parts)
  show ?case
  proof (cases "p = Some pp")
    case True
    with Cons.prems show ?thesis by (simp add: clean_or_400_def)
  next
    case False
    with Cons obtain m where "convert_price_parts td parts = Inl (Error 400 m)" by auto
    then show ?thesis
      by (cases p) (auto simp: clean_or_400_def split: option.splits)
  qed
qed

lemma convert_price_parts_error_400:
  "convert_price_parts td parts = Inl st \<Longrightarrow> \<exists>m. st = Error 400 m"
proof (induction parts)
  case Nil
  then show ?case by simp
next
  case (Cons p parts)
  then show ?case
    by (cases p) (auto simp: clean_or_400_def split: option.splits if_splits sum.splits)
qed

lemma convert_shipping_options_unclean:
  assumes "Some so \<in> set opts" and "unclean_shipping_option td so"
  shows "\<exists>m. convert_shipping_options td opts = Inl (Error 400 m)"
  using assms
proof (induction opts)
  case Nil
  then show ?case by simp
next
  case (Cons opt opts)
  show ?case
  proof (cases "opt = Some so")
    case True
    from Cons.prems(2) consider
        "clean_input_string td (option_id so) = None"
      | "clean_input_string td (option_title so) = None"
      | pp where "Some pp \<in> set (price_parts so)" "clean_input_string td (part_label pp) = None"
      by (auto simp: unclean_shipping_option_def)
    then show ?thesis
    proof cases
      case 1
      with True show ?thesis by (simp add: clean_or_400_def)
    next
      case 2
      with True show ?thesis by (simp add: clean_or_400_def split: option.splits)
    next
      case 3
      then obtain m where "convert_price_parts td (price_parts so) = Inl (Error 400 m)"
        using convert_price_parts_unclean by blast
      with True show ?thesis by (auto simp: clean_or_400_def split: option.splits)
    qed
  next
    case False
    with Cons obtain m where "convert_shipping_options td opts = Inl (Error 400 m)" by auto
    then show ?thesis
      by (cases opt)
        (auto simp: clean_or_400_def dest: convert_price_parts_error_400
          split: option.splits sum.splits)
  qed
qed

text \<open>Claim C9, as amended. For every call of \<^verbatim>\<open>validate_order_info\<close> with a non-null order
  info in which some user-supplied string field (name, phone number, email address or a
  shipping-address field) fails the clean-for-transmission check, the promise is rejected
  and no query is sent: when the input invoice resolves, with the error of class 400 that
  names the first failing field in the order of the checks; when it does not resolve, with
  the error of that failed resolution, before any field is looked at. For every call of
  \<^verbatim>\<open>answer_shipping_query\<close> in which the identifier, the title or a price-part label of some
  shipping option fails the check, the promise is rejected with an error of class 400 and no
  query is sent.\<close>

theorem unclean_input_is_rejected:
  "(first_unclean td (order_info_fields oi) = Some (v, msg) \<longrightarrow>
      (\<exists>st. validate_order_info td inp (Some oi) allow_save = Inl st)
      \<and> (\<forall>info. get_input_invoice_info td inp = Inr info \<longrightarrow>
             validate_order_info td inp (Some oi) allow_save = Inl (Error 400 msg))
      \<and> (\<forall>st. get_input_invoice_info td inp = Inl st \<longrightarrow>
             validate_order_info td inp (Some oi) allow_save = Inl st))
   \<and> (Some so \<in> set opts \<and> unclean_shipping_option td so \<longrightarrow>
        (\<exists>m. answer_shipping_query td shipping_query_id opts err_message = Inl (Error 400 m)))"
proof (intro conjI impI allI)
  assume f: "first_unclean td (order_info_fields oi) = Some (v, msg)"
  show "\<exists>st. validate_order_info td inp (Some oi) allow_save = Inl st"
  proof (cases "get_input_invoice_info td inp")
    case (Inl st)
    then show ?thesis by (simp add: validate_order_info_invoice_error)
  next
    case (Inr info)
    with f show ?thesis by (simp add: validate_order_info_first_unclean)
  qed
next
  fix info
  assume "first_unclean td (order_info_fields oi) = Some (v, msg)"
    and "get_input_invoice_info td inp = Inr info"
  then show "validate_order_info td inp (Some oi) allow_save = Inl (Error 400 msg)"
    by (rule validate_order_info_first_unclean)
next
  fix st assume "get_input_invoice_info td inp = Inl st"
  then show "validate_order_info td inp (Some oi) allow_save = Inl st"
    by (rule validate_order_info_invoice_error)
next
  assume "Some so \<in> set opts \<and> unclean_shipping_option td so"
  then obtain m where "convert_shipping_options td opts = Inl (Error 400 m)"
    using convert_shipping_options_unclean by blast
  then show "\<exists>m. answer_shipping_query td shipping_query_id opts err_message = Inl (Error 400 m)"
    by (simp add: answer_shipping_query_def)
qed

lemma example_clean:
  "clean_input_string example_payments_td [CHR 0xFF] = None"
  "clean_input_string example_payments_td ''+100'' = Some ''+100''"
  "clean_input_string example_payments_td ''a@b.c'' = Some ''a@b.c''"
  "clean_input_string example_payments_td ''fast'' = Some ''fast''"
  "clean_input_string example_payments_td ''Fast'' = Some ''Fast''"
  by (simp_all add: example_payments_td_def)

theorem unclean_input_is_rejected_witness:
  "first_unclean example_payments_td (order_info_fields example_order_info)
     = Some ([CHR 0xFF], ''Name must be encoded in UTF-8'')
   \<and> get_input_invoice_info example_payments_td (Some (inputInvoiceName ''shop''))
       = Inr \<lparr>dialog_id = 0, input_invoice = wire_inputInvoiceSlug ''shop''\<rparr>
   \<and> validate_order_info example_payments_td (Some (inputInvoiceName ''shop''))
        (Some example_order_info) False = Inl (Error 400 ''Name must be encoded in UTF-8'')
   \<and> Some example_shipping_option \<in> set [Some example_shipping_option]
   \<and> unclean_shipping_option example_payments_td example_shipping_option
   \<and> answer_shipping_query example_payments_td 1 [Some example_shipping_option] []
       = Inl (Error 400 ''Shipping option price part label must be encoded in UTF-8'')"
proof -
  have f: "first_unclean example_payments_td (order_info_fields example_order_info)
     = Some ([CHR 0xFF], ''Name must be encoded in UTF-8'')"
    by (simp add: first_unclean_order_info example_order_info_def example_clean)
  have g: "get_input_invoice_info example_payments_td (Some (inputInvoiceName ''shop''))
       = Inr \<lparr>dialog_id = 0, input_invoice = wire_inputInvoiceSlug ''shop''\<rparr>"
    by (simp add: get_input_invoice_info_def)
  have u: "unclean_shipping_option example_payments_td example_shipping_option"
    by (simp add: unclean_shipping_option_def example_shipping_option_def example_clean)
  have a: "answer_shipping_query example_payments_td 1 [Some example_shipping_option] []
       = Inl (Error 400 ''Shipping option price part label must be encoded in UTF-8'')"
    by (simp add: answer_shipping_query_def example_shipping_option_def clean_or_400_def
        example_clean)
  from unclean_input_is_rejected
    [of example_payments_td example_order_info "[CHR 0xFF]" "''Name must be encoded in UTF-8''"
        "Some (inputInvoiceName ''shop'')" False example_shipping_option
        "[Some example_shipping_option]" 1 "[]"] f g
  have "validate_order_info example_payments_td (Some (inputInvoiceName ''shop''))
        (Some example_order_info) False = Inl (Error 400 ''Name must be encoded in UTF-8'')"
    by simp
  with f g u a show ?thesis by simp
qed

text \<open>Claim C9 as stated fails: with a null input invoice and a name that is not clean, the
  error the caller receives names the input invoice, not the name.\<close>

theorem validate_order_info_null_invoice:
  "clean_input_string example_payments_td (name example_order_info) = None
   \<and> validate_order_info example_payments_td None (Some example_order_info) False
       = Inl (Error 400 ''Input invoice must be non-empty'')"
  by (simp add: validate_order_info_def get_input_invoice_info_def example_order_info_def
      example_clean)

end
